theory Spec2Isabelle
  imports Main
begin

section \<open>The polling trigger of the inFlow Inventory node\<close>

text \<open>
  A shallow embedding of \<^verbatim>\<open>nodes/InFlowInventory/InFlowInventoryTrigger.node.ts\<close> and of
  the request function of \<^verbatim>\<open>nodes/InFlowInventory/transport/index.ts\<close> it calls.

  Conventions of the embedding:
  \<^item> The workflow static data (\<^verbatim>\<open>webhookData\<close>) is a record whose fields are the keys the
    code reads and writes; an absent key (\<^verbatim>\<open>undefined\<close>) is \<open>None\<close>.
  \<^item> A remote record is a record of the fields the code reads, at the types the code casts
    them to (\<^verbatim>\<open>entityId as string\<close>, \<^verbatim>\<open>status as string\<close>,
    \<^verbatim>\<open>updatedAt as string | undefined\<close>, \<^verbatim>\<open>productId as string\<close>,
    \<^verbatim>\<open>quantityOnHand as number\<close>). Quantities are integers.
  \<^item> A \<^verbatim>\<open>Record<string, T>\<close> is a map; this agrees with the JavaScript object for
    keys that are not property names inherited from \<^verbatim>\<open>Object.prototype\<close>.
  \<^item> The mutation of \<^verbatim>\<open>webhookData\<close> is explicit state passing; the HTTP layer is a
    function from the request options to the outcome, and the context logs what was sent.
  \<^item> A rejected promise is the left summand of a sum type.
  \<^item> \<^verbatim>\<open>new Date(s)\<close> is a parameter \<open>dateValue\<close>, giving the time value of a string
    or \<open>None\<close> for an invalid date.
\<close>

subsection \<open>Data\<close>

datatype qvalue = QNum int | QStr string

type_synonym query = "(string \<times> qvalue) list"

record item =
  entityId :: string
  status :: string
  updatedAt :: "string option"
  productId :: string
  quantityOnHand :: int
  product :: string

record request_options =
  http_method :: string
  uri :: string
  body :: "query option"
  qs :: "query option"

datatype response = RequestFails | NotArray | Array "item list"

datatype reply = NonArray | Items "item list"

datatype error = NodeApiError

record poll_context =
  helpers_request :: "request_options \<Rightarrow> response"
  sent :: "request_options list"

record inventory_change =
  change_product :: string
  change_productId :: string
  previousQuantity :: int
  currentQuantity :: int
  change :: int

datatype payload = Entity item | InventoryChange inventory_change

record execution_data =
  json_event :: string
  json_data :: payload

record static_data =
  lastPollTime :: "string option"
  knownIds :: "string list option"
  salesOrderIds :: "string list option"
  salesOrderStatuses :: "(string \<rightharpoonup> string) option"
  purchaseOrderIds :: "string list option"
  purchaseOrderStatuses :: "(string \<rightharpoonup> string) option"
  stockAdjustmentIds :: "string list option"
  stockTransferStatuses :: "(string \<rightharpoonup> string) option"
  inventorySnapshot :: "(string \<rightharpoonup> int) option"

record node_options =
  locationId :: "string option"
  categoryId :: "string option"

subsection \<open>JavaScript primitives the code relies on\<close>

text \<open>Truthiness of a value of type \<^verbatim>\<open>string | undefined\<close>.\<close>

definition truthy :: "string option \<Rightarrow> bool" where
  "truthy v = (case v of None \<Rightarrow> False | Some s \<Rightarrow> s \<noteq> [])"

text \<open>\<^verbatim>\<open>new Date(a) > new Date(b)\<close>: a comparison with an invalid date is false.\<close>

definition dateGreater :: "(string \<Rightarrow> int option) \<Rightarrow> string \<Rightarrow> string \<Rightarrow> bool" where
  "dateGreater dateValue a b =
     (case dateValue a of
        None \<Rightarrow> False
      | Some x \<Rightarrow> (case dateValue b of None \<Rightarrow> False | Some y \<Rightarrow> y < x))"

text \<open>\<^verbatim>\<open>s.split('.')\<close>: never empty; the empty string gives one empty part.\<close>

fun split_dot :: "string \<Rightarrow> string list" where
  "split_dot [] = [[]]"
| "split_dot (c # cs) =
     (if c = CHR ''.'' then [] # split_dot cs
      else (case split_dot cs of [] \<Rightarrow> [[c]] | w # ws \<Rightarrow> (c # w) # ws))"

text \<open>The destructuring \<^verbatim>\<open>const [resourceType, actionType] = event.split('.')\<close>.\<close>

definition resourceTypeOf :: "string \<Rightarrow> string" where
  "resourceTypeOf event = (case split_dot event of [] \<Rightarrow> [] | r # _ \<Rightarrow> r)"

definition actionTypeOf :: "string \<Rightarrow> string option" where
  "actionTypeOf event = (case split_dot event of _ # a # _ \<Rightarrow> Some a | _ \<Rightarrow> None)"

subsection \<open>transport: inFlowApiRequest\<close>

text \<open>
  The body and the query string are attached only when they have a key. A failure of the
  HTTP helper is rethrown as a \<^verbatim>\<open>NodeApiError\<close>. (The credentials are part of the
  context and not of the model; a failure to read them is caught by the callers in the
  same way as a failed request.)
\<close>

definition inFlowApiRequest ::
  "poll_context \<Rightarrow> string \<Rightarrow> string \<Rightarrow> query \<Rightarrow> query \<Rightarrow> poll_context \<times> (error + reply)" where
  "inFlowApiRequest ctx method endpoint bdy query =
     (let options = \<lparr> http_method = method, uri = endpoint,
                       body = (if bdy \<noteq> [] then Some bdy else None),
                       qs = (if query \<noteq> [] then Some query else None) \<rparr>;
          ctx' = ctx \<lparr> sent := sent ctx @ [options] \<rparr>
      in (ctx',
          (case helpers_request ctx options of
             RequestFails \<Rightarrow> Inl NodeApiError
           | NotArray \<Rightarrow> Inr NonArray
           | Array xs \<Rightarrow> Inr (Items xs))))"

subsection \<open>Bootstrap\<close>

definition endpoints :: "(string \<times> string) list" where
  "endpoints =
     [(''product.created'', ''/products''),
      (''product.updated'', ''/products''),
      (''salesOrder.created'', ''/salesOrders''),
      (''salesOrder.updated'', ''/salesOrders''),
      (''salesOrder.fulfilled'', ''/salesOrders''),
      (''purchaseOrder.created'', ''/purchaseOrders''),
      (''purchaseOrder.received'', ''/purchaseOrders''),
      (''stockAdjustment.created'', ''/stockAdjustments''),
      (''stockTransfer.completed'', ''/stockTransfers'')]"

definition getEndpointForEvent :: "string \<Rightarrow> string option" where
  "getEndpointForEvent event =
     (case map_of endpoints event of
        None \<Rightarrow> None
      | Some e \<Rightarrow> (if e \<noteq> [] then Some e else None))"

definition initializePollingState ::
  "poll_context \<Rightarrow> string \<Rightarrow> static_data \<Rightarrow> poll_context \<times> static_data" where
  "initializePollingState ctx event webhookData =
     (case getEndpointForEvent event of
        None \<Rightarrow> (ctx, webhookData)
      | Some endpoint \<Rightarrow>
          (case inFlowApiRequest ctx ''GET'' endpoint [] [(''count'', QNum 50)] of
             (ctx', Inl _) \<Rightarrow> (ctx', webhookData \<lparr> knownIds := Some [] \<rparr>)
           | (ctx', Inr NonArray) \<Rightarrow> (ctx', webhookData)
           | (ctx', Inr (Items items)) \<Rightarrow>
               (ctx', webhookData \<lparr> knownIds := Some (map entityId items) \<rparr>)))"

subsection \<open>The pollers\<close>

definition entityEvent :: "string \<Rightarrow> item \<Rightarrow> execution_data" where
  "entityEvent name x = \<lparr> json_event = name, json_data = Entity x \<rparr>"

text \<open>The loop of \<^verbatim>\<open>pollProducts\<close> for the action \<^verbatim>\<open>updated\<close>.\<close>

definition productsUpdatedBody ::
  "(string \<Rightarrow> int option) \<Rightarrow> string \<Rightarrow> string list \<Rightarrow> item \<Rightarrow>
   execution_data list \<Rightarrow> execution_data list" where
  "productsUpdatedBody dateValue lastPoll known p returnData =
     (if truthy (updatedAt p) \<and> dateGreater dateValue (the (updatedAt p)) lastPoll
      then (if entityId p \<in> set known
            then returnData @ [entityEvent ''product.updated'' p]
            else returnData)
      else returnData)"

fun productsUpdatedLoop ::
  "(string \<Rightarrow> int option) \<Rightarrow> string \<Rightarrow> string list \<Rightarrow> item list \<Rightarrow>
   execution_data list \<Rightarrow> execution_data list" where
  "productsUpdatedLoop dateValue lastPoll known [] returnData = returnData"
| "productsUpdatedLoop dateValue lastPoll known (p # ps) returnData =
     productsUpdatedLoop dateValue lastPoll known ps
       (productsUpdatedBody dateValue lastPoll known p returnData)"

definition pollProducts ::
  "(string \<Rightarrow> int option) \<Rightarrow> poll_context \<Rightarrow> string option \<Rightarrow> string \<Rightarrow> static_data \<Rightarrow>
   poll_context \<times> (error + execution_data list \<times> static_data)" where
  "pollProducts dateValue ctx actionType lastPoll webhookData =
     (let known = (case knownIds webhookData of None \<Rightarrow> [] | Some ids \<Rightarrow> ids)
      in case inFlowApiRequest ctx ''GET'' ''/products'' [] [(''count'', QNum 50)] of
           (ctx', Inl e) \<Rightarrow> (ctx', Inl e)
         | (ctx', Inr NonArray) \<Rightarrow> (ctx', Inr ([], webhookData))
         | (ctx', Inr (Items products)) \<Rightarrow>
             (let currentIds = map entityId products;
                  returnData =
                    (if actionType = Some ''created''
                     then map (entityEvent ''product.created'')
                            (filter (\<lambda>p. entityId p \<notin> set known) products)
                     else if actionType = Some ''updated''
                     then productsUpdatedLoop dateValue lastPoll known products []
                     else [])
              in (ctx', Inr (returnData, webhookData \<lparr> knownIds := Some currentIds \<rparr>))))"

text \<open>
  The loop of \<^verbatim>\<open>pollSalesOrders\<close>, on the pair of its two accumulators: first its body,
  then the iteration over the orders.
\<close>

definition salesOrdersBody ::
  "(string \<Rightarrow> int option) \<Rightarrow> string option \<Rightarrow> string \<Rightarrow> string list \<Rightarrow> (string \<rightharpoonup> string) \<Rightarrow>
   item \<Rightarrow> execution_data list \<times> (string \<rightharpoonup> string) \<Rightarrow>
   execution_data list \<times> (string \<rightharpoonup> string)" where
  "salesOrdersBody dateValue actionType lastPoll known knownStatuses order acc =
     (case acc of (returnData, currentStatuses) \<Rightarrow>
       (if actionType = Some ''created''
        then (if entityId order \<notin> set known
              then returnData @ [entityEvent ''salesOrder.created'' order]
              else returnData)
        else if actionType = Some ''updated''
        then (if entityId order \<in> set known
              then (if truthy (updatedAt order) \<and>
                       dateGreater dateValue (the (updatedAt order)) lastPoll
                    then returnData @ [entityEvent ''salesOrder.updated'' order]
                    else returnData)
              else returnData)
        else if actionType = Some ''fulfilled''
        then (if status order = ''Fulfilled'' \<and>
                 truthy (knownStatuses (entityId order)) \<and>
                 knownStatuses (entityId order) \<noteq> Some ''Fulfilled''
              then returnData @ [entityEvent ''salesOrder.fulfilled'' order]
              else returnData)
        else returnData,
        currentStatuses (entityId order \<mapsto> status order)))"

fun salesOrdersLoop ::
  "(string \<Rightarrow> int option) \<Rightarrow> string option \<Rightarrow> string \<Rightarrow> string list \<Rightarrow> (string \<rightharpoonup> string) \<Rightarrow>
   item list \<Rightarrow> execution_data list \<times> (string \<rightharpoonup> string) \<Rightarrow>
   execution_data list \<times> (string \<rightharpoonup> string)" where
  "salesOrdersLoop dateValue actionType lastPoll known knownStatuses [] acc = acc"
| "salesOrdersLoop dateValue actionType lastPoll known knownStatuses (order # orders) acc =
     salesOrdersLoop dateValue actionType lastPoll known knownStatuses orders
       (salesOrdersBody dateValue actionType lastPoll known knownStatuses order acc)"

definition pollSalesOrders ::
  "(string \<Rightarrow> int option) \<Rightarrow> poll_context \<Rightarrow> string option \<Rightarrow> string \<Rightarrow> static_data \<Rightarrow>
   poll_context \<times> (error + execution_data list \<times> static_data)" where
  "pollSalesOrders dateValue ctx actionType lastPoll webhookData =
     (let known = (case salesOrderIds webhookData of None \<Rightarrow> [] | Some ids \<Rightarrow> ids);
          knownStatuses =
            (case salesOrderStatuses webhookData of None \<Rightarrow> Map.empty | Some m \<Rightarrow> m)
      in case inFlowApiRequest ctx ''GET'' ''/salesOrders'' [] [(''count'', QNum 50)] of
           (ctx', Inl e) \<Rightarrow> (ctx', Inl e)
         | (ctx', Inr NonArray) \<Rightarrow> (ctx', Inr ([], webhookData))
         | (ctx', Inr (Items orders)) \<Rightarrow>
             (let currentIds = map entityId orders;
                  (returnData, currentStatuses) =
                    salesOrdersLoop dateValue actionType lastPoll known knownStatuses orders
                      ([], Map.empty)
              in (ctx', Inr (returnData,
                    webhookData \<lparr> salesOrderIds := Some currentIds,
                                  salesOrderStatuses := Some currentStatuses \<rparr>))))"

definition purchaseOrdersBody ::
  "string option \<Rightarrow> string list \<Rightarrow> (string \<rightharpoonup> string) \<Rightarrow>
   item \<Rightarrow> execution_data list \<times> (string \<rightharpoonup> string) \<Rightarrow>
   execution_data list \<times> (string \<rightharpoonup> string)" where
  "purchaseOrdersBody actionType known knownStatuses order acc =
     (case acc of (returnData, currentStatuses) \<Rightarrow>
       (if actionType = Some ''created''
        then (if entityId order \<notin> set known
              then returnData @ [entityEvent ''purchaseOrder.created'' order]
              else returnData)
        else if actionType = Some ''received''
        then (if (status order = ''Received'' \<or> status order = ''PartiallyReceived'') \<and>
                 knownStatuses (entityId order) = Some ''Open''
              then returnData @ [entityEvent ''purchaseOrder.received'' order]
              else returnData)
        else returnData,
        currentStatuses (entityId order \<mapsto> status order)))"

fun purchaseOrdersLoop ::
  "string option \<Rightarrow> string list \<Rightarrow> (string \<rightharpoonup> string) \<Rightarrow>
   item list \<Rightarrow> execution_data list \<times> (string \<rightharpoonup> string) \<Rightarrow>
   execution_data list \<times> (string \<rightharpoonup> string)" where
  "purchaseOrdersLoop actionType known knownStatuses [] acc = acc"
| "purchaseOrdersLoop actionType known knownStatuses (order # orders) acc =
     purchaseOrdersLoop actionType known knownStatuses orders
       (purchaseOrdersBody actionType known knownStatuses order acc)"

definition pollPurchaseOrders ::
  "poll_context \<Rightarrow> string option \<Rightarrow> string \<Rightarrow> static_data \<Rightarrow>
   poll_context \<times> (error + execution_data list \<times> static_data)" where
  "pollPurchaseOrders ctx actionType lastPoll webhookData =
     (let known = (case purchaseOrderIds webhookData of None \<Rightarrow> [] | Some ids \<Rightarrow> ids);
          knownStatuses =
            (case purchaseOrderStatuses webhookData of None \<Rightarrow> Map.empty | Some m \<Rightarrow> m)
      in case inFlowApiRequest ctx ''GET'' ''/purchaseOrders'' [] [(''count'', QNum 50)] of
           (ctx', Inl e) \<Rightarrow> (ctx', Inl e)
         | (ctx', Inr NonArray) \<Rightarrow> (ctx', Inr ([], webhookData))
         | (ctx', Inr (Items orders)) \<Rightarrow>
             (let currentIds = map entityId orders;
                  (returnData, currentStatuses) =
                    purchaseOrdersLoop actionType known knownStatuses orders ([], Map.empty)
              in (ctx', Inr (returnData,
                    webhookData \<lparr> purchaseOrderIds := Some currentIds,
                                  purchaseOrderStatuses := Some currentStatuses \<rparr>))))"

definition pollStockAdjustments ::
  "poll_context \<Rightarrow> static_data \<Rightarrow>
   poll_context \<times> (error + execution_data list \<times> static_data)" where
  "pollStockAdjustments ctx webhookData =
     (let known = (case stockAdjustmentIds webhookData of None \<Rightarrow> [] | Some ids \<Rightarrow> ids)
      in case inFlowApiRequest ctx ''GET'' ''/stockAdjustments'' [] [(''count'', QNum 50)] of
           (ctx', Inl e) \<Rightarrow> (ctx', Inl e)
         | (ctx', Inr NonArray) \<Rightarrow> (ctx', Inr ([], webhookData))
         | (ctx', Inr (Items adjustments)) \<Rightarrow>
             (let currentIds = map entityId adjustments;
                  newAdjustments = filter (\<lambda>a. entityId a \<notin> set known) adjustments;
                  returnData = map (entityEvent ''stockAdjustment.created'') newAdjustments
              in (ctx', Inr (returnData,
                    webhookData \<lparr> stockAdjustmentIds := Some currentIds \<rparr>))))"

definition stockTransfersBody ::
  "string option \<Rightarrow> (string \<rightharpoonup> string) \<Rightarrow>
   item \<Rightarrow> execution_data list \<times> (string \<rightharpoonup> string) \<Rightarrow>
   execution_data list \<times> (string \<rightharpoonup> string)" where
  "stockTransfersBody actionType knownStatuses transfer acc =
     (case acc of (returnData, currentStatuses) \<Rightarrow>
       (if actionType = Some ''completed''
        then (if status transfer = ''Completed'' \<and>
                 knownStatuses (entityId transfer) = Some ''Open''
              then returnData @ [entityEvent ''stockTransfer.completed'' transfer]
              else returnData)
        else returnData,
        currentStatuses (entityId transfer \<mapsto> status transfer)))"

fun stockTransfersLoop ::
  "string option \<Rightarrow> (string \<rightharpoonup> string) \<Rightarrow>
   item list \<Rightarrow> execution_data list \<times> (string \<rightharpoonup> string) \<Rightarrow>
   execution_data list \<times> (string \<rightharpoonup> string)" where
  "stockTransfersLoop actionType knownStatuses [] acc = acc"
| "stockTransfersLoop actionType knownStatuses (transfer # transfers) acc =
     stockTransfersLoop actionType knownStatuses transfers
       (stockTransfersBody actionType knownStatuses transfer acc)"

definition pollStockTransfers ::
  "poll_context \<Rightarrow> string option \<Rightarrow> static_data \<Rightarrow>
   poll_context \<times> (error + execution_data list \<times> static_data)" where
  "pollStockTransfers ctx actionType webhookData =
     (let knownStatuses =
            (case stockTransferStatuses webhookData of None \<Rightarrow> Map.empty | Some m \<Rightarrow> m)
      in case inFlowApiRequest ctx ''GET'' ''/stockTransfers'' [] [(''count'', QNum 50)] of
           (ctx', Inl e) \<Rightarrow> (ctx', Inl e)
         | (ctx', Inr NonArray) \<Rightarrow> (ctx', Inr ([], webhookData))
         | (ctx', Inr (Items transfers)) \<Rightarrow>
             (let (returnData, currentStatuses) =
                    stockTransfersLoop actionType knownStatuses transfers ([], Map.empty)
              in (ctx', Inr (returnData,
                    webhookData \<lparr> stockTransferStatuses := Some currentStatuses \<rparr>))))"

definition inventoryEvent :: "item \<Rightarrow> int \<Rightarrow> execution_data" where
  "inventoryEvent x previous =
     \<lparr> json_event = ''inventory.changed'',
       json_data = InventoryChange
         \<lparr> change_product = product x,
           change_productId = productId x,
           previousQuantity = previous,
           currentQuantity = quantityOnHand x,
           change = quantityOnHand x - previous \<rparr> \<rparr>"

definition inventoryBody ::
  "(string \<rightharpoonup> int) \<Rightarrow> item \<Rightarrow> execution_data list \<times> (string \<rightharpoonup> int) \<Rightarrow>
   execution_data list \<times> (string \<rightharpoonup> int)" where
  "inventoryBody knownInventory x acc =
     (case acc of (returnData, currentInventory) \<Rightarrow>
       (case knownInventory (productId x) of
          None \<Rightarrow> returnData
        | Some previous \<Rightarrow>
            (if previous \<noteq> quantityOnHand x
             then returnData @ [inventoryEvent x previous]
             else returnData),
        currentInventory (productId x \<mapsto> quantityOnHand x)))"

fun inventoryLoop ::
  "(string \<rightharpoonup> int) \<Rightarrow> item list \<Rightarrow> execution_data list \<times> (string \<rightharpoonup> int) \<Rightarrow>
   execution_data list \<times> (string \<rightharpoonup> int)" where
  "inventoryLoop knownInventory [] acc = acc"
| "inventoryLoop knownInventory (x # xs) acc =
     inventoryLoop knownInventory xs (inventoryBody knownInventory x acc)"

definition pollInventoryChanges ::
  "poll_context \<Rightarrow> node_options \<Rightarrow> static_data \<Rightarrow>
   poll_context \<times> (error + execution_data list \<times> static_data)" where
  "pollInventoryChanges ctx options webhookData =
     (let knownInventory =
            (case inventorySnapshot webhookData of None \<Rightarrow> Map.empty | Some m \<Rightarrow> m);
          query = (if truthy (locationId options)
                   then [(''locationId'', QStr (the (locationId options)))]
                   else [])
      in case inFlowApiRequest ctx ''GET'' ''/reports/inventorySummary'' [] query of
           (ctx', Inl e) \<Rightarrow> (ctx', Inl e)
         | (ctx', Inr NonArray) \<Rightarrow> (ctx', Inr ([], webhookData))
         | (ctx', Inr (Items inventory)) \<Rightarrow>
             (let (returnData, currentInventory) =
                    inventoryLoop knownInventory inventory ([], Map.empty)
              in (ctx', Inr (returnData,
                    webhookData \<lparr> inventorySnapshot := Some currentInventory \<rparr>))))"

subsection \<open>Dispatch and the poll entry point\<close>

text \<open>
  The \<^verbatim>\<open>switch\<close> has no default case. The \<^verbatim>\<open>catch\<close> swallows the error of a poller:
  \<open>caught\<close> then returns the events pushed so far (none), and the static data is as the
  poller found it, since a poller writes to it only after its loop.
\<close>

definition caught ::
  "static_data \<Rightarrow> poll_context \<times> (error + execution_data list \<times> static_data) \<Rightarrow>
   poll_context \<times> execution_data list \<times> static_data" where
  "caught webhookData r =
     (case r of
        (ctx', Inl e) \<Rightarrow> (ctx', [], webhookData)
      | (ctx', Inr (items, webhookData')) \<Rightarrow> (ctx', items, webhookData'))"

definition detectChanges ::
  "(string \<Rightarrow> int option) \<Rightarrow> poll_context \<Rightarrow> string \<Rightarrow> node_options \<Rightarrow> string \<Rightarrow>
   static_data \<Rightarrow> poll_context \<times> execution_data list \<times> static_data" where
  "detectChanges dateValue ctx event options lastPoll webhookData =
     (let resourceType = resourceTypeOf event;
          actionType = actionTypeOf event
      in if resourceType = ''product''
         then caught webhookData (pollProducts dateValue ctx actionType lastPoll webhookData)
         else if resourceType = ''salesOrder''
         then caught webhookData
                (pollSalesOrders dateValue ctx actionType lastPoll webhookData)
         else if resourceType = ''purchaseOrder''
         then caught webhookData (pollPurchaseOrders ctx actionType lastPoll webhookData)
         else if resourceType = ''stockAdjustment''
         then caught webhookData (pollStockAdjustments ctx webhookData)
         else if resourceType = ''stockTransfer''
         then caught webhookData (pollStockTransfers ctx actionType webhookData)
         else if resourceType = ''inventory''
         then caught webhookData (pollInventoryChanges ctx options webhookData)
         else (ctx, [], webhookData))"

text \<open>
  \<^verbatim>\<open>poll\<close> gets the current time \<open>now\<close> (the ISO string of \<^verbatim>\<open>new Date()\<close>) as an
  argument. The result \<^verbatim>\<open>null\<close> is \<open>None\<close>.
\<close>

definition poll ::
  "(string \<Rightarrow> int option) \<Rightarrow> poll_context \<Rightarrow> string \<Rightarrow> node_options \<Rightarrow> string \<Rightarrow>
   static_data \<Rightarrow> poll_context \<times> static_data \<times> execution_data list list option" where
  "poll dateValue ctx event options now webhookData =
     (let lastPoll = lastPollTime webhookData;
          webhookData1 = webhookData \<lparr> lastPollTime := Some now \<rparr>
      in if \<not> truthy lastPoll
         then (case initializePollingState ctx event webhookData1 of
                 (ctx', webhookData2) \<Rightarrow> (ctx', webhookData2, None))
         else (case detectChanges dateValue ctx event options (the lastPoll) webhookData1 of
                 (ctx', changes, webhookData2) \<Rightarrow>
                   (ctx', webhookData2, if changes = [] then None else Some [changes])))"

section \<open>Notions used in the statements\<close>

text \<open>
  The request for the first page of a collection, and the request for the inventory
  summary under the configured options, as the HTTP helper receives them.
\<close>

definition pageRequest :: "string \<Rightarrow> request_options" where
  "pageRequest endpoint =
     \<lparr> http_method = ''GET'', uri = endpoint, body = None, qs = Some [(''count'', QNum 50)] \<rparr>"

definition inventoryRequest :: "node_options \<Rightarrow> request_options" where
  "inventoryRequest options =
     \<lparr> http_method = ''GET'', uri = ''/reports/inventorySummary'', body = None,
       qs = (if truthy (locationId options)
             then Some [(''locationId'', QStr (the (locationId options)))] else None) \<rparr>"

text \<open>
  The events a poll cycle hands to the workflow (none for \<^verbatim>\<open>null\<close>), the static data it
  leaves behind, and the reading of an absent key as the code defaults it
  (\<^verbatim>\<open>|| {}\<close>, \<^verbatim>\<open>|| []\<close>).
\<close>

definition emitted ::
  "poll_context \<times> static_data \<times> execution_data list list option \<Rightarrow> execution_data list" where
  "emitted r = (case snd (snd r) of None \<Rightarrow> [] | Some xs \<Rightarrow> concat xs)"

definition checkpoint ::
  "poll_context \<times> static_data \<times> execution_data list list option \<Rightarrow> static_data" where
  "checkpoint r = fst (snd r)"

definition recorded :: "(string \<rightharpoonup> 'a) option \<Rightarrow> string \<rightharpoonup> 'a" where
  "recorded m = (case m of None \<Rightarrow> Map.empty | Some f \<Rightarrow> f)"

definition idsOf :: "string list option \<Rightarrow> string list" where
  "idsOf ids = (case ids of None \<Rightarrow> [] | Some xs \<Rightarrow> xs)"

text \<open>
  The key of the static data under which the poller of a resource type keeps the ids of
  the previous page.
\<close>

definition trackedIds :: "string \<Rightarrow> static_data \<Rightarrow> string list option" where
  "trackedIds resource webhookData =
     (if resource = ''product'' then knownIds webhookData
      else if resource = ''salesOrder'' then salesOrderIds webhookData
      else if resource = ''purchaseOrder'' then purchaseOrderIds webhookData
      else stockAdjustmentIds webhookData)"

text \<open>A record has an \<^verbatim>\<open>updatedAt\<close>, and it is later than the last poll time.\<close>

definition updatedSince :: "(string \<Rightarrow> int option) \<Rightarrow> string \<Rightarrow> item \<Rightarrow> bool" where
  "updatedSince dateValue lastPoll x =
     (case updatedAt x of
        None \<Rightarrow> False
      | Some u \<Rightarrow> u \<noteq> [] \<and> dateGreater dateValue u lastPoll)"

text \<open>The events \<^verbatim>\<open>pollProducts\<close> returns for an action, as a filter of the page.\<close>

definition productEvents ::
  "(string \<Rightarrow> int option) \<Rightarrow> string option \<Rightarrow> string \<Rightarrow> string list \<Rightarrow> item list \<Rightarrow>
   execution_data list" where
  "productEvents dv a lp known ps =
     (if a = Some ''created''
      then map (entityEvent ''product.created'') (filter (\<lambda>x. entityId x \<notin> set known) ps)
      else if a = Some ''updated''
      then map (entityEvent ''product.updated'')
             (filter (\<lambda>x. entityId x \<in> set known \<and> updatedSince dv lp x) ps)
      else [])"

text \<open>An event is an inventory change of the given product.\<close>

definition changeFor :: "string \<Rightarrow> execution_data \<Rightarrow> bool" where
  "changeFor pid e =
     (case json_data e of Entity _ \<Rightarrow> False | InventoryChange c \<Rightarrow> change_productId c = pid)"

text \<open>
  The scheduler runs one cycle at a time, each with its own context and clock reading, on
  the static data the previous cycle left; \<open>pollRun\<close> collects the events of such a run.
\<close>

fun pollRun ::
  "(string \<Rightarrow> int option) \<Rightarrow> string \<Rightarrow> node_options \<Rightarrow> (poll_context \<times> string) list \<Rightarrow>
   static_data \<Rightarrow> execution_data list" where
  "pollRun dv ev opts [] wd = []"
| "pollRun dv ev opts (c # cycles) wd =
     emitted (poll dv (fst c) ev opts (snd c) wd) @
     pollRun dv ev opts cycles (checkpoint (poll dv (fst c) ev opts (snd c) wd))"

text \<open>An event carries the record with the given id.\<close>

definition eventFor :: "string \<Rightarrow> execution_data \<Rightarrow> bool" where
  "eventFor i e = (case json_data e of Entity x \<Rightarrow> entityId x = i | InventoryChange _ \<Rightarrow> False)"

text \<open>
  A cycle of a run in which the purchase order with the given id is not seen open: the
  clock reading is a non-empty string, and if the API answers with a page, the ids of the
  page are distinct and the order, if it is on the page, has a status other than
  \<^verbatim>\<open>Open\<close>.
\<close>

definition leftOpen :: "string \<Rightarrow> poll_context \<times> string \<Rightarrow> bool" where
  "leftOpen i c =
     (snd c \<noteq> [] \<and>
      (case helpers_request (fst c) (pageRequest ''/purchaseOrders'') of
         Array os \<Rightarrow>
           distinct (map entityId os) \<and> (\<forall>x \<in> set os. entityId x = i \<longrightarrow> status x \<noteq> ''Open'')
       | _ \<Rightarrow> True))"

section \<open>Example inputs\<close>

text \<open>The time values of three ISO strings, five minutes apart.\<close>

definition exampleDates :: "string \<Rightarrow> int option" where
  "exampleDates =
     map_of [(''2024-01-01T00:00:00.000Z'', 1704067200000),
             (''2024-01-01T00:05:00.000Z'', 1704067500000),
             (''2024-01-01T00:10:00.000Z'', 1704067800000)]"

definition noOptions :: node_options where
  "noOptions = \<lparr> locationId = None, categoryId = None \<rparr>"

definition emptyData :: static_data where
  "emptyData =
     \<lparr> lastPollTime = None, knownIds = None, salesOrderIds = None,
       salesOrderStatuses = None, purchaseOrderIds = None, purchaseOrderStatuses = None,
       stockAdjustmentIds = None, stockTransferStatuses = None, inventorySnapshot = None \<rparr>"

definition entity :: "string \<Rightarrow> string \<Rightarrow> string option \<Rightarrow> item" where
  "entity i s u =
     \<lparr> entityId = i, status = s, updatedAt = u, productId = [], quantityOnHand = 0,
       product = [] \<rparr>"

text \<open>A context whose HTTP helper gives the same outcome to every request.\<close>

definition answering :: "response \<Rightarrow> poll_context" where
  "answering r = \<lparr> helpers_request = (\<lambda>_. r), sent = [] \<rparr>"



definition openOrders :: "item list" where
  "openOrders = [entity ''A'' ''Open'' None, entity ''B'' ''Open'' None]"

definition purchaseData :: static_data where
  "purchaseData =
     emptyData \<lparr> lastPollTime := Some ''2024-01-01T00:00:00.000Z'',
                 purchaseOrderIds := Some [''A''],
                 purchaseOrderStatuses := Some (map_of [(''A'', ''Open'')]) \<rparr>"

text \<open>
  Three products: one known and touched after the last poll, one known and touched at the
  last poll, one unknown and touched after the last poll.
\<close>

definition touchedProducts :: "item list" where
  "touchedProducts =
     [entity ''A'' [] (Some ''2024-01-01T00:05:00.000Z''),
      entity ''B'' [] (Some ''2024-01-01T00:00:00.000Z''),
      entity ''C'' [] (Some ''2024-01-01T00:05:00.000Z'')]"

definition productData :: static_data where
  "productData =
     emptyData \<lparr> lastPollTime := Some ''2024-01-01T00:00:00.000Z'',
                 knownIds := Some [''A'', ''B''] \<rparr>"

text \<open>The previous quantities \<^verbatim>\<open>{P1: 10}\<close> and the report \<^verbatim>\<open>{P1: 7, P2: 5}\<close>.\<close>

definition stockLine :: "string \<Rightarrow> string \<Rightarrow> int \<Rightarrow> item" where
  "stockLine p n q =
     \<lparr> entityId = [], status = [], updatedAt = None, productId = p, quantityOnHand = q,
       product = n \<rparr>"

definition stockLines :: "item list" where
  "stockLines = [stockLine ''P1'' ''Widget'' 7, stockLine ''P2'' ''Gadget'' 5]"

definition inventoryData :: static_data where
  "inventoryData =
     emptyData \<lparr> lastPollTime := Some ''2024-01-01T00:00:00.000Z'',
                 inventorySnapshot := Some (map_of [(''P1'', 10)]) \<rparr>"

text \<open>Purchase orders and stock transfers after a status change.\<close>

definition receivedOrders :: "item list" where
  "receivedOrders =
     [entity ''A'' ''Received'' None, entity ''B'' ''Received'' None,
      entity ''C'' ''PartiallyReceived'' None]"

definition movedTransfers :: "item list" where
  "movedTransfers =
     [entity ''T1'' ''Completed'' None, entity ''T2'' ''InTransit'' None,
      entity ''T3'' ''Completed'' None]"

definition receivingData :: static_data where
  "receivingData =
     emptyData \<lparr> lastPollTime := Some ''2024-01-01T00:00:00.000Z'',
                 purchaseOrderStatuses :=
                   Some (map_of [(''A'', ''Open''), (''B'', ''PartiallyReceived'')]),
                 stockTransferStatuses :=
                   Some (map_of [(''T1'', ''Open''), (''T2'', ''Open'')]) \<rparr>"

text \<open>A context whose HTTP helper answers by the path requested, and fails elsewhere.\<close>

definition byUri :: "(string \<times> response) list \<Rightarrow> poll_context" where
  "byUri table =
     \<lparr> helpers_request =
         (\<lambda>rq. case map_of table (uri rq) of None \<Rightarrow> RequestFails | Some r \<Rightarrow> r),
       sent = [] \<rparr>"

text \<open>Both filters configured.\<close>

definition filterOptions :: node_options where
  "filterOptions = \<lparr> locationId = Some ''L1'', categoryId = Some ''C1'' \<rparr>"

text \<open>An order that is partially received in one cycle and received in the next.\<close>

definition partialPage :: "item list" where
  "partialPage = [entity ''A'' ''PartiallyReceived'' None, entity ''B'' ''Open'' None]"

definition receivedPage :: "item list" where
  "receivedPage = [entity ''A'' ''Received'' None, entity ''B'' ''Open'' None]"

definition receiptRun :: "(poll_context \<times> string) list" where
  "receiptRun =
     [(answering (Array partialPage), ''2024-01-01T00:05:00.000Z''),
      (answering (Array receivedPage), ''2024-01-01T00:10:00.000Z'')]"

section \<open>Auxiliary facts\<close>

subsection \<open>The loops as filters\<close>

lemma updatedSince_eq:
  "(truthy (updatedAt x) \<and> dateGreater dv (the (updatedAt x)) lp) = updatedSince dv lp x"
  by (simp add: updatedSince_def truthy_def split: option.splits)

lemma productsUpdatedLoop_eq:
  "productsUpdatedLoop dv lp known ps acc =
     acc @ map (entityEvent ''product.updated'')
       (filter (\<lambda>x. entityId x \<in> set known \<and> updatedSince dv lp x) ps)"
  by (induction ps arbitrary: acc) (auto simp: productsUpdatedBody_def updatedSince_eq)

lemma salesOrdersLoop_snd:
  "snd (salesOrdersLoop dv a lp known ks os acc) =
     foldl (\<lambda>m x. m(entityId x \<mapsto> status x)) (snd acc) os"
  by (induction os arbitrary: acc) (auto simp: salesOrdersBody_def split: prod.splits)

lemma salesOrdersLoop_created:
  "fst (salesOrdersLoop dv (Some ''created'') lp known ks os acc) =
     fst acc @ map (entityEvent ''salesOrder.created'')
       (filter (\<lambda>x. entityId x \<notin> set known) os)"
  by (induction os arbitrary: acc) (auto simp: salesOrdersBody_def split: prod.splits)

lemma salesOrdersLoop_updated:
  "fst (salesOrdersLoop dv (Some ''updated'') lp known ks os acc) =
     fst acc @ map (entityEvent ''salesOrder.updated'')
       (filter (\<lambda>x. entityId x \<in> set known \<and> updatedSince dv lp x) os)"
  by (induction os arbitrary: acc)
     (auto simp: salesOrdersBody_def updatedSince_eq split: prod.splits)


lemma purchaseOrdersLoop_snd:
  "snd (purchaseOrdersLoop a known ks os acc) =
     foldl (\<lambda>m x. m(entityId x \<mapsto> status x)) (snd acc) os"
  by (induction os arbitrary: acc) (auto simp: purchaseOrdersBody_def split: prod.splits)

lemma purchaseOrdersLoop_created:
  "fst (purchaseOrdersLoop (Some ''created'') known ks os acc) =
     fst acc @ map (entityEvent ''purchaseOrder.created'')
       (filter (\<lambda>x. entityId x \<notin> set known) os)"
  by (induction os arbitrary: acc) (auto simp: purchaseOrdersBody_def split: prod.splits)

lemma purchaseOrdersLoop_received:
  "fst (purchaseOrdersLoop (Some ''received'') known ks os acc) =
     fst acc @ map (entityEvent ''purchaseOrder.received'')
       (filter (\<lambda>x. (status x = ''Received'' \<or> status x = ''PartiallyReceived'') \<and>
                    ks (entityId x) = Some ''Open'') os)"
  by (induction os arbitrary: acc) (auto simp: purchaseOrdersBody_def split: prod.splits)

lemma stockTransfersLoop_snd:
  "snd (stockTransfersLoop a ks ts acc) =
     foldl (\<lambda>m x. m(entityId x \<mapsto> status x)) (snd acc) ts"
  by (induction ts arbitrary: acc) (auto simp: stockTransfersBody_def split: prod.splits)

lemma stockTransfersLoop_completed:
  "fst (stockTransfersLoop (Some ''completed'') ks ts acc) =
     fst acc @ map (entityEvent ''stockTransfer.completed'')
       (filter (\<lambda>x. status x = ''Completed'' \<and> ks (entityId x) = Some ''Open'') ts)"
  by (induction ts arbitrary: acc) (auto simp: stockTransfersBody_def split: prod.splits)



lemma foldl_upd_map_of:
  "foldl (\<lambda>m x. m(k x \<mapsto> v x)) m xs = m ++ map_of (rev (map (\<lambda>x. (k x, v x)) xs))"
  by (induction xs arbitrary: m) (simp_all add: map_add_upd_left)


subsection \<open>One request, one poller\<close>

lemma inFlowApiRequest_page:
  "inFlowApiRequest ctx ''GET'' ep [] [(''count'', QNum 50)] =
     (ctx \<lparr> sent := sent ctx @ [pageRequest ep] \<rparr>,
      case helpers_request ctx (pageRequest ep) of
        RequestFails \<Rightarrow> Inl NodeApiError | NotArray \<Rightarrow> Inr NonArray | Array xs \<Rightarrow> Inr (Items xs))"
  by (simp add: inFlowApiRequest_def pageRequest_def Let_def)

lemma inFlowApiRequest_inventory:
  "inFlowApiRequest ctx ''GET'' ''/reports/inventorySummary'' []
     (if truthy (locationId options)
      then [(''locationId'', QStr (the (locationId options)))] else []) =
     (ctx \<lparr> sent := sent ctx @ [inventoryRequest options] \<rparr>,
      case helpers_request ctx (inventoryRequest options) of
        RequestFails \<Rightarrow> Inl NodeApiError | NotArray \<Rightarrow> Inr NonArray | Array xs \<Rightarrow> Inr (Items xs))"
  by (simp add: inFlowApiRequest_def inventoryRequest_def Let_def)

lemma pollProducts_array:
  assumes "helpers_request ctx (pageRequest ''/products'') = Array ps"
  shows "pollProducts dv ctx a lp wd =
     (ctx \<lparr> sent := sent ctx @ [pageRequest ''/products''] \<rparr>,
      Inr (if a = Some ''created''
           then map (entityEvent ''product.created'')
                  (filter (\<lambda>x. entityId x \<notin> set (idsOf (knownIds wd))) ps)
           else if a = Some ''updated''
           then map (entityEvent ''product.updated'')
                  (filter (\<lambda>x. entityId x \<in> set (idsOf (knownIds wd)) \<and> updatedSince dv lp x) ps)
           else [],
           wd \<lparr> knownIds := Some (map entityId ps) \<rparr>))"
  using assms
  by (simp add: pollProducts_def inFlowApiRequest_page Let_def idsOf_def productsUpdatedLoop_eq)

lemma pollSalesOrders_array:
  assumes "helpers_request ctx (pageRequest ''/salesOrders'') = Array os"
  shows "pollSalesOrders dv ctx a lp wd =
     (ctx \<lparr> sent := sent ctx @ [pageRequest ''/salesOrders''] \<rparr>,
      Inr (fst (salesOrdersLoop dv a lp (idsOf (salesOrderIds wd))
                  (recorded (salesOrderStatuses wd)) os ([], Map.empty)),
           wd \<lparr> salesOrderIds := Some (map entityId os),
                salesOrderStatuses :=
                  Some (foldl (\<lambda>m x. m(entityId x \<mapsto> status x)) Map.empty os) \<rparr>))"
  using assms salesOrdersLoop_snd[of dv a lp "idsOf (salesOrderIds wd)"
      "recorded (salesOrderStatuses wd)" os "([], Map.empty)"]
  by (simp add: pollSalesOrders_def inFlowApiRequest_page Let_def idsOf_def recorded_def
        case_prod_beta)

lemma pollPurchaseOrders_array:
  assumes "helpers_request ctx (pageRequest ''/purchaseOrders'') = Array os"
  shows "pollPurchaseOrders ctx a lp wd =
     (ctx \<lparr> sent := sent ctx @ [pageRequest ''/purchaseOrders''] \<rparr>,
      Inr (fst (purchaseOrdersLoop a (idsOf (purchaseOrderIds wd))
                  (recorded (purchaseOrderStatuses wd)) os ([], Map.empty)),
           wd \<lparr> purchaseOrderIds := Some (map entityId os),
                purchaseOrderStatuses :=
                  Some (foldl (\<lambda>m x. m(entityId x \<mapsto> status x)) Map.empty os) \<rparr>))"
  using assms purchaseOrdersLoop_snd[of a "idsOf (purchaseOrderIds wd)"
      "recorded (purchaseOrderStatuses wd)" os "([], Map.empty)"]
  by (simp add: pollPurchaseOrders_def inFlowApiRequest_page Let_def idsOf_def recorded_def
        case_prod_beta)

lemma pollStockAdjustments_array:
  assumes "helpers_request ctx (pageRequest ''/stockAdjustments'') = Array xs"
  shows "pollStockAdjustments ctx wd =
     (ctx \<lparr> sent := sent ctx @ [pageRequest ''/stockAdjustments''] \<rparr>,
      Inr (map (entityEvent ''stockAdjustment.created'')
             (filter (\<lambda>x. entityId x \<notin> set (idsOf (stockAdjustmentIds wd))) xs),
           wd \<lparr> stockAdjustmentIds := Some (map entityId xs) \<rparr>))"
  using assms
  by (simp add: pollStockAdjustments_def inFlowApiRequest_page Let_def idsOf_def)

lemma pollStockTransfers_array:
  assumes "helpers_request ctx (pageRequest ''/stockTransfers'') = Array ts"
  shows "pollStockTransfers ctx a wd =
     (ctx \<lparr> sent := sent ctx @ [pageRequest ''/stockTransfers''] \<rparr>,
      Inr (fst (stockTransfersLoop a (recorded (stockTransferStatuses wd)) ts ([], Map.empty)),
           wd \<lparr> stockTransferStatuses :=
                  Some (foldl (\<lambda>m x. m(entityId x \<mapsto> status x)) Map.empty ts) \<rparr>))"
  using assms stockTransfersLoop_snd[of a "recorded (stockTransferStatuses wd)" ts
      "([], Map.empty)"]
  by (simp add: pollStockTransfers_def inFlowApiRequest_page Let_def recorded_def
        case_prod_beta)


subsection \<open>One poll cycle\<close>

lemma poll_detect:
  assumes "truthy (lastPollTime wd)"
  shows "poll dv ctx ev opts now wd =
     (case detectChanges dv ctx ev opts (the (lastPollTime wd)) (wd \<lparr> lastPollTime := Some now \<rparr>) of
        (c, changes, w) \<Rightarrow> (c, w, if changes = [] then None else Some [changes]))"
  using assms by (simp add: poll_def Let_def)

lemma poll_bootstrap:
  assumes "\<not> truthy (lastPollTime wd)"
  shows "poll dv ctx ev opts now wd =
     (case initializePollingState ctx ev (wd \<lparr> lastPollTime := Some now \<rparr>) of
        (c, w) \<Rightarrow> (c, w, None))"
  using assms by (simp add: poll_def Let_def)

lemma emitted_result [simp]:
  "emitted (c, w, None) = []"
  "emitted (c, w, Some xss) = concat xss"
  by (simp_all add: emitted_def)

lemma checkpoint_result [simp]: "checkpoint (c, w, r) = w"
  by (simp add: checkpoint_def)


lemma poll_product_array:
  assumes "truthy (lastPollTime wd)"
      and "helpers_request ctx (pageRequest ''/products'') = Array ps"
      and "resourceTypeOf ev = ''product''"
  shows "poll dv ctx ev opts now wd =
     (ctx \<lparr> sent := sent ctx @ [pageRequest ''/products''] \<rparr>,
      wd \<lparr> lastPollTime := Some now, knownIds := Some (map entityId ps) \<rparr>,
      if productEvents dv (actionTypeOf ev) (the (lastPollTime wd)) (idsOf (knownIds wd)) ps = []
      then None
      else Some [productEvents dv (actionTypeOf ev) (the (lastPollTime wd))
                   (idsOf (knownIds wd)) ps])"
  using assms(1,3)
  by (simp add: poll_detect detectChanges_def caught_def Let_def pollProducts_array[OF assms(2)]
        productEvents_def)

lemma poll_salesOrder_array:
  assumes "truthy (lastPollTime wd)"
      and "helpers_request ctx (pageRequest ''/salesOrders'') = Array os"
      and "resourceTypeOf ev = ''salesOrder''"
  shows "poll dv ctx ev opts now wd =
     (ctx \<lparr> sent := sent ctx @ [pageRequest ''/salesOrders''] \<rparr>,
      wd \<lparr> lastPollTime := Some now, salesOrderIds := Some (map entityId os),
           salesOrderStatuses :=
             Some (foldl (\<lambda>m x. m(entityId x \<mapsto> status x)) Map.empty os) \<rparr>,
      if fst (salesOrdersLoop dv (actionTypeOf ev) (the (lastPollTime wd))
                (idsOf (salesOrderIds wd)) (recorded (salesOrderStatuses wd)) os
                ([], Map.empty)) = []
      then None
      else Some [fst (salesOrdersLoop dv (actionTypeOf ev) (the (lastPollTime wd))
                (idsOf (salesOrderIds wd)) (recorded (salesOrderStatuses wd)) os
                ([], Map.empty))])"
  using assms(1,3)
  by (simp add: poll_detect detectChanges_def caught_def Let_def pollSalesOrders_array[OF assms(2)])

lemma poll_purchaseOrder_array:
  assumes "truthy (lastPollTime wd)"
      and "helpers_request ctx (pageRequest ''/purchaseOrders'') = Array os"
      and "resourceTypeOf ev = ''purchaseOrder''"
  shows "poll dv ctx ev opts now wd =
     (ctx \<lparr> sent := sent ctx @ [pageRequest ''/purchaseOrders''] \<rparr>,
      wd \<lparr> lastPollTime := Some now, purchaseOrderIds := Some (map entityId os),
           purchaseOrderStatuses :=
             Some (foldl (\<lambda>m x. m(entityId x \<mapsto> status x)) Map.empty os) \<rparr>,
      if fst (purchaseOrdersLoop (actionTypeOf ev) (idsOf (purchaseOrderIds wd))
                (recorded (purchaseOrderStatuses wd)) os ([], Map.empty)) = []
      then None
      else Some [fst (purchaseOrdersLoop (actionTypeOf ev) (idsOf (purchaseOrderIds wd))
                (recorded (purchaseOrderStatuses wd)) os ([], Map.empty))])"
  using assms(1,3)
  by (simp add: poll_detect detectChanges_def caught_def Let_def pollPurchaseOrders_array[OF assms(2)])

lemma poll_stockAdjustment_array:
  assumes "truthy (lastPollTime wd)"
      and "helpers_request ctx (pageRequest ''/stockAdjustments'') = Array xs"
      and "resourceTypeOf ev = ''stockAdjustment''"
  shows "poll dv ctx ev opts now wd =
     (ctx \<lparr> sent := sent ctx @ [pageRequest ''/stockAdjustments''] \<rparr>,
      wd \<lparr> lastPollTime := Some now, stockAdjustmentIds := Some (map entityId xs) \<rparr>,
      if map (entityEvent ''stockAdjustment.created'')
           (filter (\<lambda>x. entityId x \<notin> set (idsOf (stockAdjustmentIds wd))) xs) = []
      then None
      else Some [map (entityEvent ''stockAdjustment.created'')
           (filter (\<lambda>x. entityId x \<notin> set (idsOf (stockAdjustmentIds wd))) xs)])"
  using assms(1,3)
  by (simp add: poll_detect detectChanges_def caught_def Let_def pollStockAdjustments_array[OF assms(2)])

lemma poll_stockTransfer_array:
  assumes "truthy (lastPollTime wd)"
      and "helpers_request ctx (pageRequest ''/stockTransfers'') = Array ts"
      and "resourceTypeOf ev = ''stockTransfer''"
  shows "poll dv ctx ev opts now wd =
     (ctx \<lparr> sent := sent ctx @ [pageRequest ''/stockTransfers''] \<rparr>,
      wd \<lparr> lastPollTime := Some now,
           stockTransferStatuses :=
             Some (foldl (\<lambda>m x. m(entityId x \<mapsto> status x)) Map.empty ts) \<rparr>,
      if fst (stockTransfersLoop (actionTypeOf ev) (recorded (stockTransferStatuses wd)) ts
                ([], Map.empty)) = []
      then None
      else Some [fst (stockTransfersLoop (actionTypeOf ev)
                (recorded (stockTransferStatuses wd)) ts ([], Map.empty))])"
  using assms(1,3)
  by (simp add: poll_detect detectChanges_def caught_def Let_def pollStockTransfers_array[OF assms(2)])


lemma entityEvent_inj [simp]: "(entityEvent n x = entityEvent m y) = (n = m \<and> x = y)"
  by (auto simp: entityEvent_def)

subsection \<open>Events and their parts\<close>

lemma event_parts:
  "resourceTypeOf ''product.created'' = ''product''"
  "actionTypeOf ''product.created'' = Some ''created''"
  "resourceTypeOf ''product.updated'' = ''product''"
  "actionTypeOf ''product.updated'' = Some ''updated''"
  "resourceTypeOf ''salesOrder.created'' = ''salesOrder''"
  "actionTypeOf ''salesOrder.created'' = Some ''created''"
  "resourceTypeOf ''salesOrder.updated'' = ''salesOrder''"
  "actionTypeOf ''salesOrder.updated'' = Some ''updated''"
  "resourceTypeOf ''salesOrder.fulfilled'' = ''salesOrder''"
  "actionTypeOf ''salesOrder.fulfilled'' = Some ''fulfilled''"
  "resourceTypeOf ''purchaseOrder.created'' = ''purchaseOrder''"
  "actionTypeOf ''purchaseOrder.created'' = Some ''created''"
  "resourceTypeOf ''purchaseOrder.received'' = ''purchaseOrder''"
  "actionTypeOf ''purchaseOrder.received'' = Some ''received''"
  "resourceTypeOf ''stockAdjustment.created'' = ''stockAdjustment''"
  "actionTypeOf ''stockAdjustment.created'' = Some ''created''"
  "resourceTypeOf ''stockTransfer.completed'' = ''stockTransfer''"
  "actionTypeOf ''stockTransfer.completed'' = Some ''completed''"
  "resourceTypeOf ''inventory.changed'' = ''inventory''"
  "actionTypeOf ''inventory.changed'' = Some ''changed''"
  by (simp_all add: resourceTypeOf_def actionTypeOf_def)

lemma filter_known_nil: "filter (\<lambda>x. entityId x \<notin> set (map entityId xs)) xs = []"
  by (simp add: filter_empty_conv)

subsection \<open>Cycles for created and updated records\<close>

lemma created_cycle:
  assumes r: "r \<in> {''product'', ''salesOrder'', ''purchaseOrder'', ''stockAdjustment''}"
      and lp: "truthy (lastPollTime wd)"
      and rq: "helpers_request ctx (pageRequest (''/'' @ r @ ''s'')) = Array items"
  shows "poll dv ctx (r @ ''.created'') opts now wd =
     (ctx \<lparr> sent := sent ctx @ [pageRequest (''/'' @ r @ ''s'')] \<rparr>,
      checkpoint (poll dv ctx (r @ ''.created'') opts now wd),
      if filter (\<lambda>x. entityId x \<notin> set (idsOf (trackedIds r wd))) items = [] then None
      else Some [map (entityEvent (r @ ''.created''))
                   (filter (\<lambda>x. entityId x \<notin> set (idsOf (trackedIds r wd))) items)]) \<and>
     trackedIds r (checkpoint (poll dv ctx (r @ ''.created'') opts now wd)) =
       Some (map entityId items) \<and>
     lastPollTime (checkpoint (poll dv ctx (r @ ''.created'') opts now wd)) = Some now"
proof -
  consider "r = ''product''" | "r = ''salesOrder''" | "r = ''purchaseOrder''"
    | "r = ''stockAdjustment''"
    using r by auto
  then show ?thesis
  proof cases
    case 1
    then show ?thesis
      using rq by (simp add: poll_product_array[OF lp _ event_parts(1)] event_parts
          productEvents_def trackedIds_def)
  next
    case 2
    then show ?thesis
      using rq by (simp add: poll_salesOrder_array[OF lp _ event_parts(5)] event_parts
          salesOrdersLoop_created trackedIds_def)
  next
    case 3
    then show ?thesis
      using rq by (simp add: poll_purchaseOrder_array[OF lp _ event_parts(11)] event_parts
          purchaseOrdersLoop_created trackedIds_def)
  next
    case 4
    then show ?thesis
      using rq by (simp add: poll_stockAdjustment_array[OF lp _ event_parts(15)] event_parts
          trackedIds_def)
  qed
qed


lemma updated_cycle:
  assumes r: "r \<in> {''product'', ''salesOrder''}"
      and lp: "truthy (lastPollTime wd)"
      and rq: "helpers_request ctx (pageRequest (''/'' @ r @ ''s'')) = Array items"
  shows "emitted (poll dv ctx (r @ ''.updated'') opts now wd) =
           map (entityEvent (r @ ''.updated''))
             (filter (\<lambda>x. entityId x \<in> set (idsOf (trackedIds r wd)) \<and>
                          updatedSince dv (the (lastPollTime wd)) x) items)"
proof -
  consider "r = ''product''" | "r = ''salesOrder''"
    using r by auto
  then show ?thesis
  proof cases
    case 1
    then show ?thesis
      using rq by (simp add: poll_product_array[OF lp _ event_parts(3)] event_parts
          productEvents_def trackedIds_def)
  next
    case 2
    then show ?thesis
      using rq by (simp add: poll_salesOrder_array[OF lp _ event_parts(7)] event_parts
          salesOrdersLoop_updated trackedIds_def)
  qed
qed

lemma emitted_bootstrap:
  "\<not> truthy (lastPollTime wd) \<Longrightarrow> emitted (poll dv ctx ev opts now wd) = []"
  by (simp add: poll_bootstrap emitted_def split: prod.splits)

subsection \<open>Pages with distinct keys\<close>



subsection \<open>The inventory cycle\<close>

lemma changeFor_inventoryEvent [simp]: "changeFor pid (inventoryEvent x p) = (productId x = pid)"
  by (simp add: changeFor_def inventoryEvent_def)


subsection \<open>Cycles without a page\<close>

lemma pollProducts_other:
  "helpers_request ctx (pageRequest ''/products'') = RequestFails \<Longrightarrow>
   pollProducts dv ctx a lp wd =
     (ctx \<lparr> sent := sent ctx @ [pageRequest ''/products''] \<rparr>, Inl NodeApiError)"
  "helpers_request ctx (pageRequest ''/products'') = NotArray \<Longrightarrow>
   pollProducts dv ctx a lp wd =
     (ctx \<lparr> sent := sent ctx @ [pageRequest ''/products''] \<rparr>, Inr ([], wd))"
  by (simp_all add: pollProducts_def inFlowApiRequest_page Let_def)

lemma pollSalesOrders_other:
  "helpers_request ctx (pageRequest ''/salesOrders'') = RequestFails \<Longrightarrow>
   pollSalesOrders dv ctx a lp wd =
     (ctx \<lparr> sent := sent ctx @ [pageRequest ''/salesOrders''] \<rparr>, Inl NodeApiError)"
  "helpers_request ctx (pageRequest ''/salesOrders'') = NotArray \<Longrightarrow>
   pollSalesOrders dv ctx a lp wd =
     (ctx \<lparr> sent := sent ctx @ [pageRequest ''/salesOrders''] \<rparr>, Inr ([], wd))"
  by (simp_all add: pollSalesOrders_def inFlowApiRequest_page Let_def)

lemma pollPurchaseOrders_other:
  "helpers_request ctx (pageRequest ''/purchaseOrders'') = RequestFails \<Longrightarrow>
   pollPurchaseOrders ctx a lp wd =
     (ctx \<lparr> sent := sent ctx @ [pageRequest ''/purchaseOrders''] \<rparr>, Inl NodeApiError)"
  "helpers_request ctx (pageRequest ''/purchaseOrders'') = NotArray \<Longrightarrow>
   pollPurchaseOrders ctx a lp wd =
     (ctx \<lparr> sent := sent ctx @ [pageRequest ''/purchaseOrders''] \<rparr>, Inr ([], wd))"
  by (simp_all add: pollPurchaseOrders_def inFlowApiRequest_page Let_def)

lemma pollStockAdjustments_other:
  "helpers_request ctx (pageRequest ''/stockAdjustments'') = RequestFails \<Longrightarrow>
   pollStockAdjustments ctx wd =
     (ctx \<lparr> sent := sent ctx @ [pageRequest ''/stockAdjustments''] \<rparr>, Inl NodeApiError)"
  "helpers_request ctx (pageRequest ''/stockAdjustments'') = NotArray \<Longrightarrow>
   pollStockAdjustments ctx wd =
     (ctx \<lparr> sent := sent ctx @ [pageRequest ''/stockAdjustments''] \<rparr>, Inr ([], wd))"
  by (simp_all add: pollStockAdjustments_def inFlowApiRequest_page Let_def)

lemma pollStockTransfers_other:
  "helpers_request ctx (pageRequest ''/stockTransfers'') = RequestFails \<Longrightarrow>
   pollStockTransfers ctx a wd =
     (ctx \<lparr> sent := sent ctx @ [pageRequest ''/stockTransfers''] \<rparr>, Inl NodeApiError)"
  "helpers_request ctx (pageRequest ''/stockTransfers'') = NotArray \<Longrightarrow>
   pollStockTransfers ctx a wd =
     (ctx \<lparr> sent := sent ctx @ [pageRequest ''/stockTransfers''] \<rparr>, Inr ([], wd))"
  by (simp_all add: pollStockTransfers_def inFlowApiRequest_page Let_def)

lemma pollInventoryChanges_other:
  "helpers_request ctx (inventoryRequest opts) = RequestFails \<Longrightarrow>
   pollInventoryChanges ctx opts wd =
     (ctx \<lparr> sent := sent ctx @ [inventoryRequest opts] \<rparr>, Inl NodeApiError)"
  "helpers_request ctx (inventoryRequest opts) = NotArray \<Longrightarrow>
   pollInventoryChanges ctx opts wd =
     (ctx \<lparr> sent := sent ctx @ [inventoryRequest opts] \<rparr>, Inr ([], wd))"
  by (simp_all add: pollInventoryChanges_def inFlowApiRequest_inventory Let_def)

text \<open>A cycle whose request fails, or is answered by something that is not an array.\<close>

lemma no_page_cases:
  "\<forall>xs. helpers_request ctx rq \<noteq> Array xs \<Longrightarrow>
   helpers_request ctx rq = RequestFails \<or> helpers_request ctx rq = NotArray"
  by (cases "helpers_request ctx rq") auto

lemma caught_no_page:
  "\<forall>xs. helpers_request ctx (pageRequest ''/products'') \<noteq> Array xs \<Longrightarrow>
   caught wd (pollProducts dv ctx a lp wd) =
   (ctx \<lparr> sent := sent ctx @ [pageRequest ''/products''] \<rparr>, [], wd)"
  "\<forall>xs. helpers_request ctx (pageRequest ''/salesOrders'') \<noteq> Array xs \<Longrightarrow>
   caught wd (pollSalesOrders dv ctx a lp wd) =
   (ctx \<lparr> sent := sent ctx @ [pageRequest ''/salesOrders''] \<rparr>, [], wd)"
  "\<forall>xs. helpers_request ctx (pageRequest ''/purchaseOrders'') \<noteq> Array xs \<Longrightarrow>
   caught wd (pollPurchaseOrders ctx a lp wd) =
   (ctx \<lparr> sent := sent ctx @ [pageRequest ''/purchaseOrders''] \<rparr>, [], wd)"
  "\<forall>xs. helpers_request ctx (pageRequest ''/stockAdjustments'') \<noteq> Array xs \<Longrightarrow>
   caught wd (pollStockAdjustments ctx wd) =
   (ctx \<lparr> sent := sent ctx @ [pageRequest ''/stockAdjustments''] \<rparr>, [], wd)"
  "\<forall>xs. helpers_request ctx (pageRequest ''/stockTransfers'') \<noteq> Array xs \<Longrightarrow>
   caught wd (pollStockTransfers ctx a wd) =
   (ctx \<lparr> sent := sent ctx @ [pageRequest ''/stockTransfers''] \<rparr>, [], wd)"
  "\<forall>xs. helpers_request ctx (inventoryRequest opts) \<noteq> Array xs \<Longrightarrow>
   caught wd (pollInventoryChanges ctx opts wd) =
   (ctx \<lparr> sent := sent ctx @ [inventoryRequest opts] \<rparr>, [], wd)"
  subgoal by (drule no_page_cases) (auto simp: caught_def pollProducts_other)
  subgoal by (drule no_page_cases) (auto simp: caught_def pollSalesOrders_other)
  subgoal by (drule no_page_cases) (auto simp: caught_def pollPurchaseOrders_other)
  subgoal by (drule no_page_cases) (auto simp: caught_def pollStockAdjustments_other)
  subgoal by (drule no_page_cases) (auto simp: caught_def pollStockTransfers_other)
  subgoal by (drule no_page_cases) (auto simp: caught_def pollInventoryChanges_other)
  done

lemma detectChanges_no_page:
  assumes "\<And>rq. \<forall>xs. helpers_request ctx rq \<noteq> Array xs"
  shows "snd (detectChanges dv ctx ev opts lp wd) = ([], wd)"
  by (simp add: detectChanges_def Let_def caught_no_page[OF assms])

lemma poll_no_page:
  assumes "truthy (lastPollTime wd)"
      and "\<And>rq. \<forall>xs. helpers_request ctx rq \<noteq> Array xs"
  shows "snd (poll dv ctx ev opts now wd) = (wd \<lparr> lastPollTime := Some now \<rparr>, None)"
proof -
  obtain c where "detectChanges dv ctx ev opts (the (lastPollTime wd))
      (wd \<lparr> lastPollTime := Some now \<rparr>) = (c, [], wd \<lparr> lastPollTime := Some now \<rparr>)"
    using detectChanges_no_page[OF assms(2), of dv ev opts "the (lastPollTime wd)"
      "wd \<lparr> lastPollTime := Some now \<rparr>"]
    by (metis prod.collapse)
  then show ?thesis
    by (simp add: poll_detect[OF assms(1)])
qed

subsection \<open>Status transitions of purchase orders and stock transfers\<close>

lemma received_cycle:
  assumes lp: "truthy (lastPollTime wd)"
  shows "emitted (poll dv ctx ''purchaseOrder.received'' opts now wd) =
     (case helpers_request ctx (pageRequest ''/purchaseOrders'') of
        Array os \<Rightarrow>
          map (entityEvent ''purchaseOrder.received'')
            (filter (\<lambda>x. (status x = ''Received'' \<or> status x = ''PartiallyReceived'') \<and>
                         recorded (purchaseOrderStatuses wd) (entityId x) = Some ''Open'') os)
      | _ \<Rightarrow> [])"
proof (cases "helpers_request ctx (pageRequest ''/purchaseOrders'')")
  case (Array os)
  then show ?thesis
    by (simp add: poll_purchaseOrder_array[OF lp Array event_parts(13)] event_parts
        purchaseOrdersLoop_received)
next
  case RequestFails
  then show ?thesis
    using lp by (simp add: poll_detect detectChanges_def Let_def event_parts caught_no_page)
next
  case NotArray
  then show ?thesis
    using lp by (simp add: poll_detect detectChanges_def Let_def event_parts caught_no_page)
qed

lemma completed_cycle:
  assumes lp: "truthy (lastPollTime wd)"
  shows "emitted (poll dv ctx ''stockTransfer.completed'' opts now wd) =
     (case helpers_request ctx (pageRequest ''/stockTransfers'') of
        Array ts \<Rightarrow>
          map (entityEvent ''stockTransfer.completed'')
            (filter (\<lambda>x. status x = ''Completed'' \<and>
                         recorded (stockTransferStatuses wd) (entityId x) = Some ''Open'') ts)
      | _ \<Rightarrow> [])"
proof (cases "helpers_request ctx (pageRequest ''/stockTransfers'')")
  case (Array ts)
  then show ?thesis
    by (simp add: poll_stockTransfer_array[OF lp Array event_parts(17)] event_parts
        stockTransfersLoop_completed)
next
  case RequestFails
  then show ?thesis
    using lp by (simp add: poll_detect detectChanges_def Let_def event_parts caught_no_page)
next
  case NotArray
  then show ?thesis
    using lp by (simp add: poll_detect detectChanges_def Let_def event_parts caught_no_page)
qed

lemma eventFor_entityEvent [simp]: "eventFor i (entityEvent n x) = (entityId x = i)"
  by (simp add: eventFor_def entityEvent_def)

lemma received_checkpoint:
  assumes lp: "truthy (lastPollTime wd)"
  shows "checkpoint (poll dv ctx ''purchaseOrder.received'' opts now wd) =
     (case helpers_request ctx (pageRequest ''/purchaseOrders'') of
        Array os \<Rightarrow>
          wd \<lparr> lastPollTime := Some now, purchaseOrderIds := Some (map entityId os),
               purchaseOrderStatuses :=
                 Some (map_of (rev (map (\<lambda>x. (entityId x, status x)) os))) \<rparr>
      | _ \<Rightarrow> wd \<lparr> lastPollTime := Some now \<rparr>)"
proof (cases "helpers_request ctx (pageRequest ''/purchaseOrders'')")
  case (Array os)
  then show ?thesis
    by (simp add: poll_purchaseOrder_array[OF lp Array event_parts(13)] foldl_upd_map_of)
next
  case RequestFails
  then show ?thesis
    using lp by (simp add: poll_detect detectChanges_def Let_def event_parts caught_no_page)
next
  case NotArray
  then show ?thesis
    using lp by (simp add: poll_detect detectChanges_def Let_def event_parts caught_no_page)
qed

lemma map_of_rev_SomeD:
  "map_of (rev (map (\<lambda>x. (k x, v x)) xs)) i = Some s \<Longrightarrow> \<exists>x \<in> set xs. k x = i \<and> v x = s"
  by (drule map_of_SomeD) auto

lemma length_filter_filter_le: "length (filter P (filter Q xs)) \<le> length (filter P xs)"
  by (induction xs) auto

lemma distinct_filter_key_le1:
  "distinct (map k xs) \<Longrightarrow> length (filter (\<lambda>x. k x = i) xs) \<le> 1"
  by (induction xs) (auto simp: filter_empty_conv image_iff)

lemma left_open_step:
  assumes lp: "truthy (lastPollTime wd)"
      and c: "leftOpen i c"
  shows "truthy (lastPollTime (checkpoint (poll dv (fst c) ''purchaseOrder.received'' opts (snd c) wd)))"
    and "recorded (purchaseOrderStatuses wd) i \<noteq> Some ''Open'' \<Longrightarrow>
         recorded (purchaseOrderStatuses
           (checkpoint (poll dv (fst c) ''purchaseOrder.received'' opts (snd c) wd))) i \<noteq> Some ''Open''"
    and "\<exists>os. helpers_request (fst c) (pageRequest ''/purchaseOrders'') = Array os \<Longrightarrow>
         recorded (purchaseOrderStatuses
           (checkpoint (poll dv (fst c) ''purchaseOrder.received'' opts (snd c) wd))) i \<noteq> Some ''Open''"
    and "\<forall>os. helpers_request (fst c) (pageRequest ''/purchaseOrders'') \<noteq> Array os \<Longrightarrow>
         emitted (poll dv (fst c) ''purchaseOrder.received'' opts (snd c) wd) = []"
    and "recorded (purchaseOrderStatuses wd) i \<noteq> Some ''Open'' \<Longrightarrow>
         filter (eventFor i) (emitted (poll dv (fst c) ''purchaseOrder.received'' opts (snd c) wd)) = []"
    and "length (filter (eventFor i)
           (emitted (poll dv (fst c) ''purchaseOrder.received'' opts (snd c) wd))) \<le> 1"
proof -
  show "truthy (lastPollTime (checkpoint (poll dv (fst c) ''purchaseOrder.received'' opts (snd c) wd)))"
    using c by (simp add: received_checkpoint[OF lp] leftOpen_def truthy_def split: response.splits)
  show "recorded (purchaseOrderStatuses
           (checkpoint (poll dv (fst c) ''purchaseOrder.received'' opts (snd c) wd))) i \<noteq> Some ''Open''"
    if "recorded (purchaseOrderStatuses wd) i \<noteq> Some ''Open''"
    using c that
    by (auto simp: received_checkpoint[OF lp] leftOpen_def recorded_def
        split: response.splits dest!: map_of_rev_SomeD)
  show "recorded (purchaseOrderStatuses
           (checkpoint (poll dv (fst c) ''purchaseOrder.received'' opts (snd c) wd))) i \<noteq> Some ''Open''"
    if "\<exists>os. helpers_request (fst c) (pageRequest ''/purchaseOrders'') = Array os"
    using c that
    by (auto simp: received_checkpoint[OF lp] leftOpen_def recorded_def
        split: response.splits dest!: map_of_rev_SomeD)
  show "emitted (poll dv (fst c) ''purchaseOrder.received'' opts (snd c) wd) = []"
    if "\<forall>os. helpers_request (fst c) (pageRequest ''/purchaseOrders'') \<noteq> Array os"
    using that by (simp add: received_cycle[OF lp] split: response.splits)
  show "filter (eventFor i) (emitted (poll dv (fst c) ''purchaseOrder.received'' opts (snd c) wd)) = []"
    if "recorded (purchaseOrderStatuses wd) i \<noteq> Some ''Open''"
    using that
    by (auto simp: received_cycle[OF lp] filter_map comp_def filter_empty_conv
        split: response.splits)
  show "length (filter (eventFor i)
           (emitted (poll dv (fst c) ''purchaseOrder.received'' opts (snd c) wd))) \<le> 1"
  proof (cases "helpers_request (fst c) (pageRequest ''/purchaseOrders'')")
    case (Array os)
    have d: "distinct (map entityId os)"
      using c Array by (simp add: leftOpen_def)
    have "length (filter (eventFor i)
           (emitted (poll dv (fst c) ''purchaseOrder.received'' opts (snd c) wd))) =
          length (filter (\<lambda>x. entityId x = i)
            (filter (\<lambda>x. (status x = ''Received'' \<or> status x = ''PartiallyReceived'') \<and>
                         recorded (purchaseOrderStatuses wd) (entityId x) = Some ''Open'') os))"
      by (simp add: received_cycle[OF lp] Array filter_map comp_def del: filter_filter)
    also have "\<dots> \<le> length (filter (\<lambda>x. entityId x = i) os)"
      by (rule length_filter_filter_le)
    also have "\<dots> \<le> 1"
      using d by (rule distinct_filter_key_le1)
    finally show ?thesis .
  qed (simp_all add: received_cycle[OF lp])
qed

lemma run_quiet:
  assumes "\<forall>c \<in> set cycles. leftOpen i c"
      and "truthy (lastPollTime wd)"
      and "recorded (purchaseOrderStatuses wd) i \<noteq> Some ''Open''"
  shows "filter (eventFor i) (pollRun dv ''purchaseOrder.received'' opts cycles wd) = []"
  using assms
proof (induction cycles arbitrary: wd)
  case Nil
  then show ?case by simp
next
  case (Cons c cycles)
  have c: "leftOpen i c" using Cons.prems(1) by simp
  note st = left_open_step[OF Cons.prems(2) c, of dv opts]
  have "filter (eventFor i) (pollRun dv ''purchaseOrder.received'' opts cycles
          (checkpoint (poll dv (fst c) ''purchaseOrder.received'' opts (snd c) wd))) = []"
    using Cons.prems(1) st(1) st(2)[OF Cons.prems(3)] by (intro Cons.IH) simp_all
  then show ?case
    using st(5)[OF Cons.prems(3)] by simp
qed

lemma run_at_most_once:
  assumes "\<forall>c \<in> set cycles. leftOpen i c"
      and "truthy (lastPollTime wd)"
  shows "length (filter (eventFor i) (pollRun dv ''purchaseOrder.received'' opts cycles wd)) \<le> 1"
  using assms
proof (induction cycles arbitrary: wd)
  case Nil
  then show ?case by simp
next
  case (Cons c cycles)
  have c: "leftOpen i c" and rest: "\<forall>c \<in> set cycles. leftOpen i c"
    using Cons.prems(1) by simp_all
  note st = left_open_step[OF Cons.prems(2) c, of dv opts]
  show ?case
  proof (cases "\<exists>os. helpers_request (fst c) (pageRequest ''/purchaseOrders'') = Array os")
    case True
    have "filter (eventFor i) (pollRun dv ''purchaseOrder.received'' opts cycles
          (checkpoint (poll dv (fst c) ''purchaseOrder.received'' opts (snd c) wd))) = []"
      using rest st(1) st(3)[OF True] by (rule run_quiet)
    then show ?thesis
      using st(6) by simp
  next
    case False
    then have "emitted (poll dv (fst c) ''purchaseOrder.received'' opts (snd c) wd) = []"
      by (intro st(4)) simp
    moreover have "length (filter (eventFor i) (pollRun dv ''purchaseOrder.received'' opts cycles
          (checkpoint (poll dv (fst c) ''purchaseOrder.received'' opts (snd c) wd)))) \<le> 1"
      using rest st(1) by (rule Cons.IH)
    ultimately show ?thesis by simp
  qed
qed

subsection \<open>Events without an endpoint\<close>



section \<open>The claims\<close>

text \<open>
  C1. Bootstrap: the first poll (no \<^verbatim>\<open>lastPollTime\<close>) is meant to emit nothing and to
  leave the ids of the fetched page as the tracked ids of the watched event, so that the
  next cycle does not report the records that already exist as created. The code stores
  the ids under \<^verbatim>\<open>knownIds\<close> for every event, while the pollers of sales orders,
  purchase orders and stock adjustments read their own keys. Evaluated for
  \<^verbatim>\<open>salesOrder.created\<close> on empty static data and a page of two orders: the first poll
  returns \<^verbatim>\<open>null\<close>, stores the two ids under \<^verbatim>\<open>knownIds\<close> and leaves
  \<^verbatim>\<open>salesOrderIds\<close> absent, and the next poll on the same page reports both orders as
  created.
\<close>

theorem bootstrap_tracks_wrong_key:
  "snd (snd (poll exampleDates (answering (Array openOrders)) ''salesOrder.created''
               noOptions ''2024-01-01T00:00:00.000Z'' emptyData)) = None \<and>
   knownIds (checkpoint (poll exampleDates (answering (Array openOrders))
               ''salesOrder.created'' noOptions ''2024-01-01T00:00:00.000Z'' emptyData)) =
     Some [''A'', ''B''] \<and>
   salesOrderIds (checkpoint (poll exampleDates (answering (Array openOrders))
               ''salesOrder.created'' noOptions ''2024-01-01T00:00:00.000Z'' emptyData)) =
     None \<and>
   emitted (poll exampleDates (answering (Array openOrders)) ''salesOrder.created''
              noOptions ''2024-01-01T00:05:00.000Z''
              (checkpoint (poll exampleDates (answering (Array openOrders))
                 ''salesOrder.created'' noOptions ''2024-01-01T00:00:00.000Z''
                 emptyData))) =
     [entityEvent ''salesOrder.created'' (entity ''A'' ''Open'' None),
      entityEvent ''salesOrder.created'' (entity ''B'' ''Open'' None)]"
proof -
  have boot: "poll exampleDates (answering (Array openOrders)) ''salesOrder.created''
               noOptions ''2024-01-01T00:00:00.000Z'' emptyData =
     (answering (Array openOrders) \<lparr> sent := [pageRequest ''/salesOrders''] \<rparr>,
      emptyData \<lparr> lastPollTime := Some ''2024-01-01T00:00:00.000Z'',
                  knownIds := Some [''A'', ''B''] \<rparr>, None)"
    by (simp add: poll_def Let_def emptyData_def truthy_def initializePollingState_def
        getEndpointForEvent_def endpoints_def inFlowApiRequest_page answering_def
        openOrders_def entity_def)
  show ?thesis
    unfolding boot
    by (simp add: poll_def Let_def truthy_def detectChanges_def caught_def event_parts
        pollSalesOrders_def inFlowApiRequest_page answering_def openOrders_def
        salesOrdersBody_def emptyData_def)
qed

text \<open>
  C2, as stated, fails: after a cycle whose request fails the static data differs from
  the static data before it.
\<close>

theorem failed_cycle_counterexample:
  "checkpoint (poll exampleDates (answering RequestFails) ''product.created'' noOptions
                 ''2024-01-01T00:05:00.000Z'' productData) \<noteq> productData"
proof -
  have "lastPollTime (checkpoint (poll exampleDates (answering RequestFails)
          ''product.created'' noOptions ''2024-01-01T00:05:00.000Z'' productData)) =
        Some ''2024-01-01T00:05:00.000Z''"
    by (simp add: poll_def Let_def productData_def emptyData_def truthy_def
        detectChanges_def caught_def event_parts pollProducts_def inFlowApiRequest_def
        answering_def checkpoint_def)
  moreover have "lastPollTime productData = Some ''2024-01-01T00:00:00.000Z''"
    by (simp add: productData_def emptyData_def)
  ultimately show ?thesis by auto
qed

text \<open>
  C2, amended. Failure non-corruption: for every static data with a \<^verbatim>\<open>lastPollTime\<close>
  and every event, if the request of the cycle fails, then \<^verbatim>\<open>poll\<close> returns
  \<^verbatim>\<open>null\<close> without raising, and the static data after the cycle is the static data
  before it except for \<^verbatim>\<open>lastPollTime\<close>, which is the time of the failed cycle.
\<close>

theorem failed_cycle_stamps_time:
  assumes "truthy (lastPollTime wd)"
      and "\<forall>rq. helpers_request ctx rq = RequestFails"
  shows "snd (poll dv ctx ev opts now wd) = (wd \<lparr> lastPollTime := Some now \<rparr>, None)"
  using assms(2) by (intro poll_no_page[OF assms(1)]) simp

theorem failed_cycle_stamps_time_witness:
  "truthy (lastPollTime productData) \<and>
   (\<forall>rq. helpers_request (answering RequestFails) rq = RequestFails) \<and>
   snd (poll exampleDates (answering RequestFails) ''salesOrder.updated'' noOptions
          ''2024-01-01T00:05:00.000Z'' productData) =
     (productData \<lparr> lastPollTime := Some ''2024-01-01T00:05:00.000Z'' \<rparr>, None)"
  using failed_cycle_stamps_time [of productData "answering RequestFails" exampleDates
      "''salesOrder.updated''" noOptions "''2024-01-01T00:05:00.000Z''"]
  by (simp add: productData_def emptyData_def answering_def truthy_def)



text \<open>
  C4. Created-event semantics: in a poll cycle after the bootstrap for
  \<^verbatim>\<open>product.created\<close>, \<^verbatim>\<open>salesOrder.created\<close>, \<^verbatim>\<open>purchaseOrder.created\<close> or
  \<^verbatim>\<open>stockAdjustment.created\<close>, the events are one created event for each record of the
  page whose id is not among the ids tracked for the resource, in page order, and none for
  a record whose id is tracked; afterwards the tracked ids are the ids of the page (a
  replacement); and a further cycle that gets the same page emits nothing.
\<close>

theorem created_events:
  assumes r: "r \<in> {''product'', ''salesOrder'', ''purchaseOrder'', ''stockAdjustment''}"
      and lp: "truthy (lastPollTime wd)"
      and rq: "helpers_request ctx (pageRequest (''/'' @ r @ ''s'')) = Array items"
      and rq2: "helpers_request ctx2 (pageRequest (''/'' @ r @ ''s'')) = Array items"
  shows "emitted (poll dv ctx (r @ ''.created'') opts now wd) =
           map (entityEvent (r @ ''.created''))
             (filter (\<lambda>x. entityId x \<notin> set (idsOf (trackedIds r wd))) items) \<and>
         (\<forall>x \<in> set items.
            (entityEvent (r @ ''.created'') x \<in>
               set (emitted (poll dv ctx (r @ ''.created'') opts now wd))) =
            (entityId x \<notin> set (idsOf (trackedIds r wd)))) \<and>
         trackedIds r (checkpoint (poll dv ctx (r @ ''.created'') opts now wd)) =
           Some (map entityId items) \<and>
         emitted (poll dv ctx2 (r @ ''.created'') opts2 now2
                    (checkpoint (poll dv ctx (r @ ''.created'') opts now wd))) = []"
proof -
  let ?wd2 = "checkpoint (poll dv ctx (r @ ''.created'') opts now wd)"
  note c1 = created_cycle[OF r lp rq, of dv opts now]
  have eq: "emitted (poll dv ctx (r @ ''.created'') opts now wd) =
           map (entityEvent (r @ ''.created''))
             (filter (\<lambda>x. entityId x \<notin> set (idsOf (trackedIds r wd))) items)"
    by (subst conjunct1[OF c1]) simp
  have tr: "trackedIds r ?wd2 = Some (map entityId items)"
    using c1 by simp
  have again: "emitted (poll dv ctx2 (r @ ''.created'') opts2 now2 ?wd2) = []"
  proof (cases "truthy (lastPollTime ?wd2)")
    case True
    show ?thesis
      by (subst conjunct1[OF created_cycle[OF r True rq2]])
         (simp add: tr idsOf_def filter_known_nil)
  next
    case False
    then show ?thesis by (rule emitted_bootstrap)
  qed
  show ?thesis
    using tr again unfolding eq by auto
qed

theorem created_events_witness:
  "''purchaseOrder'' \<in> {''product'', ''salesOrder'', ''purchaseOrder'', ''stockAdjustment''} \<and>
   truthy (lastPollTime purchaseData) \<and>
   helpers_request (answering (Array openOrders)) (pageRequest ''/purchaseOrders'') =
     Array openOrders \<and>
   emitted (poll exampleDates (answering (Array openOrders)) ''purchaseOrder.created''
              noOptions ''2024-01-01T00:05:00.000Z'' purchaseData) =
     [entityEvent ''purchaseOrder.created'' (entity ''B'' ''Open'' None)] \<and>
   purchaseOrderIds
     (checkpoint (poll exampleDates (answering (Array openOrders)) ''purchaseOrder.created''
                    noOptions ''2024-01-01T00:05:00.000Z'' purchaseData)) =
     Some [''A'', ''B''] \<and>
   emitted (poll exampleDates (answering (Array openOrders)) ''purchaseOrder.created''
              noOptions ''2024-01-01T00:10:00.000Z''
              (checkpoint (poll exampleDates (answering (Array openOrders))
                 ''purchaseOrder.created'' noOptions ''2024-01-01T00:05:00.000Z''
                 purchaseData))) = []"
  using created_events [of "''purchaseOrder''" purchaseData "answering (Array openOrders)"
      openOrders "answering (Array openOrders)" exampleDates noOptions
      "''2024-01-01T00:05:00.000Z''" noOptions "''2024-01-01T00:10:00.000Z''"]
  by (simp add: purchaseData_def emptyData_def answering_def openOrders_def entity_def
        truthy_def idsOf_def trackedIds_def)

text \<open>
  C5. Updated-event semantics with first-sight suppression: in a poll cycle after the
  bootstrap for \<^verbatim>\<open>product.updated\<close> or \<^verbatim>\<open>salesOrder.updated\<close>, a record of the page
  produces an updated event if and only if its id is among the tracked ids and it has a
  (non-empty) \<^verbatim>\<open>updatedAt\<close> whose date is strictly greater than that of
  \<^verbatim>\<open>lastPollTime\<close>; a record whose id is not tracked produces none, whatever its
  \<^verbatim>\<open>updatedAt\<close>.
\<close>

theorem updated_events:
  assumes r: "r \<in> {''product'', ''salesOrder''}"
      and lp: "truthy (lastPollTime wd)"
      and rq: "helpers_request ctx (pageRequest (''/'' @ r @ ''s'')) = Array items"
  shows "emitted (poll dv ctx (r @ ''.updated'') opts now wd) =
           map (entityEvent (r @ ''.updated''))
             (filter (\<lambda>x. entityId x \<in> set (idsOf (trackedIds r wd)) \<and>
                          updatedSince dv (the (lastPollTime wd)) x) items) \<and>
         (\<forall>x \<in> set items.
            (entityEvent (r @ ''.updated'') x \<in>
               set (emitted (poll dv ctx (r @ ''.updated'') opts now wd))) =
            (entityId x \<in> set (idsOf (trackedIds r wd)) \<and>
             (\<exists>u. updatedAt x = Some u \<and> u \<noteq> [] \<and>
                  dateGreater dv u (the (lastPollTime wd))))) \<and>
         (\<forall>x \<in> set items.
            entityId x \<notin> set (idsOf (trackedIds r wd)) \<longrightarrow>
            entityEvent (r @ ''.updated'') x \<notin>
               set (emitted (poll dv ctx (r @ ''.updated'') opts now wd)))"
  unfolding updated_cycle[OF r lp rq]
  by (auto simp: updatedSince_def split: option.splits)

theorem updated_events_witness:
  "''product'' \<in> {''product'', ''salesOrder''} \<and>
   truthy (lastPollTime productData) \<and>
   helpers_request (answering (Array touchedProducts)) (pageRequest ''/products'') =
     Array touchedProducts \<and>
   emitted (poll exampleDates (answering (Array touchedProducts)) ''product.updated''
              noOptions ''2024-01-01T00:10:00.000Z'' productData) =
     [entityEvent ''product.updated'' (entity ''A'' [] (Some ''2024-01-01T00:05:00.000Z''))]"
  using updated_events [of "''product''" productData "answering (Array touchedProducts)"
      touchedProducts exampleDates noOptions "''2024-01-01T00:10:00.000Z''"]
  by (simp add: productData_def emptyData_def answering_def touchedProducts_def entity_def
        truthy_def idsOf_def trackedIds_def updatedSince_def dateGreater_def
        exampleDates_def)



text \<open>
  C7. Open-predecessor requirement: in a poll cycle after the bootstrap, every
  \<^verbatim>\<open>purchaseOrder.received\<close> event is for a record whose status recorded in the static
  data is exactly \<^verbatim>\<open>Open\<close>, and every \<^verbatim>\<open>stockTransfer.completed\<close> event is for a
  record whose new status is \<^verbatim>\<open>Completed\<close> and whose recorded status is exactly
  \<^verbatim>\<open>Open\<close>; a record with no recorded status, or with another recorded status, emits
  nothing.
\<close>

theorem open_predecessor:
  assumes lp: "truthy (lastPollTime wd)"
  shows "(\<forall>e \<in> set (emitted (poll dv ctx ''purchaseOrder.received'' opts now wd)).
            \<exists>x. e = entityEvent ''purchaseOrder.received'' x \<and>
                recorded (purchaseOrderStatuses wd) (entityId x) = Some ''Open'') \<and>
         (\<forall>e \<in> set (emitted (poll dv ctx ''stockTransfer.completed'' opts now wd)).
            \<exists>x. e = entityEvent ''stockTransfer.completed'' x \<and>
                status x = ''Completed'' \<and>
                recorded (stockTransferStatuses wd) (entityId x) = Some ''Open'') \<and>
         (\<forall>x. recorded (purchaseOrderStatuses wd) (entityId x) \<noteq> Some ''Open'' \<longrightarrow>
              entityEvent ''purchaseOrder.received'' x \<notin>
                set (emitted (poll dv ctx ''purchaseOrder.received'' opts now wd))) \<and>
         (\<forall>x. recorded (stockTransferStatuses wd) (entityId x) \<noteq> Some ''Open'' \<longrightarrow>
              entityEvent ''stockTransfer.completed'' x \<notin>
                set (emitted (poll dv ctx ''stockTransfer.completed'' opts now wd)))"
  unfolding received_cycle[OF lp] completed_cycle[OF lp]
  by (auto split: response.splits)

theorem open_predecessor_witness:
  "truthy (lastPollTime receivingData) \<and>
   emitted (poll exampleDates
              (byUri [(''/purchaseOrders'', Array receivedOrders),
                      (''/stockTransfers'', Array movedTransfers)])
              ''purchaseOrder.received'' noOptions ''2024-01-01T00:05:00.000Z''
              receivingData) =
     [entityEvent ''purchaseOrder.received'' (entity ''A'' ''Received'' None)] \<and>
   recorded (purchaseOrderStatuses receivingData) ''A'' = Some ''Open'' \<and>
   emitted (poll exampleDates
              (byUri [(''/purchaseOrders'', Array receivedOrders),
                      (''/stockTransfers'', Array movedTransfers)])
              ''stockTransfer.completed'' noOptions ''2024-01-01T00:05:00.000Z''
              receivingData) =
     [entityEvent ''stockTransfer.completed'' (entity ''T1'' ''Completed'' None)] \<and>
   recorded (stockTransferStatuses receivingData) ''T1'' = Some ''Open''"
  using open_predecessor [of receivingData exampleDates
      "byUri [(''/purchaseOrders'', Array receivedOrders),
              (''/stockTransfers'', Array movedTransfers)]"
      noOptions "''2024-01-01T00:05:00.000Z''"]
  by (simp add: received_cycle completed_cycle receivingData_def emptyData_def byUri_def
        pageRequest_def receivedOrders_def movedTransfers_def entity_def truthy_def
        recorded_def)




text \<open>
  C9. Filter pass-through: the location and category filters are meant to be passed as
  query parameters of the snapshot fetch for every event. Evaluated with both filters
  configured: the request of a \<^verbatim>\<open>product.created\<close> cycle carries only \<^verbatim>\<open>count\<close>, and
  the request of an \<^verbatim>\<open>inventory.changed\<close> cycle carries the location and not the
  category.
\<close>

theorem filters_not_sent:
  "sent (fst (poll exampleDates (answering (Array touchedProducts)) ''product.created''
                filterOptions ''2024-01-01T00:05:00.000Z'' productData)) =
     [\<lparr> http_method = ''GET'', uri = ''/products'', body = None,
        qs = Some [(''count'', QNum 50)] \<rparr>] \<and>
   sent (fst (poll exampleDates (answering (Array stockLines)) ''inventory.changed''
                filterOptions ''2024-01-01T00:05:00.000Z'' inventoryData)) =
     [\<lparr> http_method = ''GET'', uri = ''/reports/inventorySummary'', body = None,
        qs = Some [(''locationId'', QStr ''L1'')] \<rparr>]"
  by (simp add: poll_def Let_def truthy_def detectChanges_def caught_def event_parts
      pollProducts_def pollInventoryChanges_def inFlowApiRequest_def answering_def
      productData_def inventoryData_def emptyData_def filterOptions_def inventoryBody_def
      stockLines_def)

text \<open>
  C10. Partial receipt also fires: in a poll cycle after the bootstrap for
  \<^verbatim>\<open>purchaseOrder.received\<close>, the events are those of the orders of the page whose new
  status is \<^verbatim>\<open>Received\<close> or \<^verbatim>\<open>PartiallyReceived\<close> and whose recorded status is exactly
  \<^verbatim>\<open>Open\<close>. Hence, over any run of cycles in which an order is no longer seen open
  (it is partially received, received, or off the page; a cycle may also fail), at most
  one received event is emitted for it.
\<close>

theorem partial_receipt_fires_once:
  assumes lp: "truthy (lastPollTime wd)"
  shows "(helpers_request ctx (pageRequest ''/purchaseOrders'') = Array orders \<longrightarrow>
            emitted (poll dv ctx ''purchaseOrder.received'' opts now wd) =
              map (entityEvent ''purchaseOrder.received'')
                (filter (\<lambda>x. (status x = ''Received'' \<or> status x = ''PartiallyReceived'') \<and>
                             recorded (purchaseOrderStatuses wd) (entityId x) = Some ''Open'')
                   orders)) \<and>
         ((\<forall>c \<in> set cycles. leftOpen i c) \<longrightarrow>
            length (filter (eventFor i)
                      (pollRun dv ''purchaseOrder.received'' opts cycles wd)) \<le> 1)"
  using run_at_most_once[OF _ lp, of cycles i dv opts]
  by (simp add: received_cycle[OF lp])

theorem partial_receipt_fires_once_witness:
  "truthy (lastPollTime purchaseData) \<and>
   helpers_request (answering (Array partialPage)) (pageRequest ''/purchaseOrders'') =
     Array partialPage \<and>
   emitted (poll exampleDates (answering (Array partialPage)) ''purchaseOrder.received''
              noOptions ''2024-01-01T00:05:00.000Z'' purchaseData) =
     [entityEvent ''purchaseOrder.received'' (entity ''A'' ''PartiallyReceived'' None)] \<and>
   pollRun exampleDates ''purchaseOrder.received'' noOptions receiptRun purchaseData =
     [entityEvent ''purchaseOrder.received'' (entity ''A'' ''PartiallyReceived'' None)] \<and>
   length (filter (eventFor ''A'')
             (pollRun exampleDates ''purchaseOrder.received'' noOptions receiptRun
                purchaseData)) \<le> 1"
proof -
  have run: "pollRun exampleDates ''purchaseOrder.received'' noOptions receiptRun purchaseData =
     [entityEvent ''purchaseOrder.received'' (entity ''A'' ''PartiallyReceived'' None)]"
    by (simp add: receiptRun_def partialPage_def receivedPage_def purchaseData_def
        emptyData_def answering_def poll_def Let_def truthy_def detectChanges_def caught_def
        event_parts pollPurchaseOrders_def inFlowApiRequest_def purchaseOrdersBody_def
        entity_def emitted_def checkpoint_def)
  have left: "\<forall>c \<in> set receiptRun. leftOpen ''A'' c"
    by (simp add: receiptRun_def leftOpen_def answering_def partialPage_def receivedPage_def
        entity_def)
  show ?thesis
    using partial_receipt_fires_once [of purchaseData "answering (Array partialPage)"
        partialPage exampleDates noOptions "''2024-01-01T00:05:00.000Z''" receiptRun "''A''"]
      run left
    by (simp add: purchaseData_def emptyData_def answering_def partialPage_def entity_def
        truthy_def recorded_def)
qed

end
